theory Spec2Isabelle
  imports Complex_Main
begin

section \<open>Python strings and integers\<close>

text \<open>
  Role and scenario names are Python strings; they are modelled as HOL strings.
  \<open>str.upper\<close> and \<open>str.lower\<close> are modelled on the ASCII letters, which is
  the alphabet of every name in the program's tables; any other character is left as it is.
\<close>

definition upper_char :: "char \<Rightarrow> char" where
  "upper_char c =
     (case map_of (zip ''abcdefghijklmnopqrstuvwxyz'' ''ABCDEFGHIJKLMNOPQRSTUVWXYZ'') c of
        Some u \<Rightarrow> u
      | None \<Rightarrow> c)"

definition lower_char :: "char \<Rightarrow> char" where
  "lower_char c =
     (case map_of (zip ''ABCDEFGHIJKLMNOPQRSTUVWXYZ'' ''abcdefghijklmnopqrstuvwxyz'') c of
        Some l \<Rightarrow> l
      | None \<Rightarrow> c)"

definition upper :: "string \<Rightarrow> string" where
  "upper s = map upper_char s"

definition lower :: "string \<Rightarrow> string" where
  "lower s = map lower_char s"

text \<open>\<open>str(n)\<close> for a Python integer, as the f-strings of the program format it.\<close>

definition digit_char :: "nat \<Rightarrow> char" where
  "digit_char d = ''0123456789'' ! d"

fun str_nat :: "nat \<Rightarrow> string" where
  "str_nat n =
     (if n < 10 then [digit_char n] else str_nat (n div 10) @ [digit_char (n mod 10)])"

declare str_nat.simps [simp del]

definition str_int :: "int \<Rightarrow> string" where
  "str_int i = (if i < 0 then CHR ''-'' # str_nat (nat (- i)) else str_nat (nat i))"


section \<open>game_logic.py: class GameLogic\<close>

subsection \<open>get_action_range\<close>

type_synonym range_key = "string \<times> string \<times> string"

definition ranges :: "(range_key \<times> (int \<times> int)) list" where
  "ranges =
     [((''ST'', ''DEF'', ''dribbling''), (1, 3)),
      ((''ST'', ''MF'', ''dribbling''), (1, 3)),
      ((''MF'', ''DEF'', ''passing''), (1, 3)),
      ((''ST'', ''GK'', ''shooting''), (1, 6)),
      ((''ST'', ''MF'', ''quick_pass''), (1, 2)),
      ((''ST'', ''DEF'', ''corner_kick''), (4, 6)),
      ((''GK'', ''ANY'', ''interception''), (1, 3)),
      ((''MF'', ''GK'', ''long_shot''), (2, 5)),
      ((''DEF'', ''ST'', ''tackle''), (1, 4)),
      ((''ANY'', ''ANY'', ''default''), (1, 3))]"

text \<open>
  \<open>ranges.get(key, ranges[("ANY", "ANY", "default")])\<close>: the subscript in the
  default argument is evaluated on every call; its key is in the table
  (lemma \<open>ranges_default\<close> below), so it never raises.
\<close>

definition get_action_range :: "string \<Rightarrow> string \<Rightarrow> string \<Rightarrow> int \<times> int" where
  "get_action_range attacker_role defender_role scenario =
     (let key = (upper attacker_role, upper defender_role, lower scenario) in
        case map_of ranges key of
          Some r \<Rightarrow> r
        | None \<Rightarrow> the (map_of ranges (''ANY'', ''ANY'', ''default'')))"

subsection \<open>evaluate_action\<close>

text \<open>
  The returned dictionary: the keys \<open>result\<close>, \<open>description\<close> and \<open>success\<close> are
  always present, \<open>next_action\<close> is absent from the two \<open>invalid_action\<close> results.
\<close>

record action_result =
  result :: string
  description :: string
  success :: bool
  next_action :: "string option"

text \<open>The range check \<open>valid_range[0] <= action <= valid_range[1]\<close>.\<close>

definition in_range :: "int \<times> int \<Rightarrow> int \<Rightarrow> bool" where
  "in_range valid_range action = (fst valid_range \<le> action \<and> action \<le> snd valid_range)"

definition evaluate_action ::
  "int \<Rightarrow> int \<Rightarrow> string \<Rightarrow> string \<Rightarrow> string \<Rightarrow> action_result" where
  "evaluate_action attacker_action defender_action attacker_role defender_role scenario =
     (let valid_range = get_action_range attacker_role defender_role scenario in
      if \<not> in_range valid_range attacker_action then
        \<lparr>result = ''invalid_action'',
         description = ''Invalid action for '' @ attacker_role @ ''. Must be between ''
            @ str_int (fst valid_range) @ ''-'' @ str_int (snd valid_range),
         success = False,
         next_action = None\<rparr>
      else if \<not> in_range valid_range defender_action then
        \<lparr>result = ''invalid_action'',
         description = ''Invalid action for '' @ defender_role @ ''. Must be between ''
            @ str_int (fst valid_range) @ ''-'' @ str_int (snd valid_range),
         success = False,
         next_action = None\<rparr>
      else if attacker_action = defender_action then
        (if upper defender_role = ''GK'' then
           \<lparr>result = ''save'',
            description = ''Goalkeeper makes a crucial save!'',
            success = False,
            next_action = Some ''corner_kick''\<rparr>
         else if upper attacker_role = ''ST'' \<and> upper defender_role = ''DEF'' then
           \<lparr>result = ''foul'',
            description = ''Defensive foul committed!'',
            success = True,
            next_action = Some ''free_kick''\<rparr>
         else
           \<lparr>result = ''interception'',
            description = ''Ball intercepted! Possession changes.'',
            success = False,
            next_action = Some ''possession_change''\<rparr>)
      else if attacker_action > defender_action then
        (if scenario = ''shooting'' \<and> upper defender_role = ''GK'' then
           \<lparr>result = ''goal'',
            description = ''GOAL! What a fantastic strike!'',
            success = True,
            next_action = Some ''kickoff''\<rparr>
         else
           \<lparr>result = ''success'',
            description = ''Action successful! Attacker advances.'',
            success = True,
            next_action = Some ''continue_attack''\<rparr>)
      else
        (if upper defender_role = ''GK'' then
           \<lparr>result = ''save'',
            description = ''Great save by the goalkeeper!'',
            success = False,
            next_action = Some ''goalkeeper_possession''\<rparr>
         else
           \<lparr>result = ''blocked'',
            description = ''Action blocked by defender!'',
            success = False,
            next_action = Some ''possession_change''\<rparr>))"


subsection \<open>calculate_success_probability\<close>

text \<open>
  The probabilities are Python floats. They are modelled as exact rationals: the function
  adds two table entries once and then only compares, so the bounds of the result depend on
  the order of the numbers alone. \<open>min\<close> and \<open>max\<close> are the Python builtins on two
  arguments: the first argument is returned unless the second is strictly smaller
  (strictly larger).
\<close>

definition role_advantages :: "((string \<times> string) \<times> rat) list" where
  "role_advantages =
     [((''ST'', ''DEF''), 6 / 10),
      ((''ST'', ''MF''), 7 / 10),
      ((''ST'', ''GK''), 4 / 10),
      ((''MF'', ''DEF''), 5 / 10),
      ((''MF'', ''GK''), 3 / 10),
      ((''DEF'', ''ST''), 4 / 10)]"

definition scenario_modifiers :: "(string \<times> rat) list" where
  "scenario_modifiers =
     [(''shooting'', - (1 / 10)),
      (''dribbling'', 0),
      (''passing'', 1 / 10),
      (''corner_kick'', 2 / 10),
      (''free_kick'', 15 / 100),
      (''penalty'', 8 / 10)]"

definition py_min :: "rat \<Rightarrow> rat \<Rightarrow> rat" where
  "py_min a b = (if b < a then b else a)"

definition py_max :: "rat \<Rightarrow> rat \<Rightarrow> rat" where
  "py_max a b = (if b > a then b else a)"

definition calculate_success_probability :: "string \<Rightarrow> string \<Rightarrow> string \<Rightarrow> rat" where
  "calculate_success_probability attacker_role defender_role scenario =
     (let key = (upper attacker_role, upper defender_role);
          base_prob = (case map_of role_advantages key of Some p \<Rightarrow> p | None \<Rightarrow> 5 / 10);
          scenario_mod = (case map_of scenario_modifiers (lower scenario) of
                            Some m \<Rightarrow> m | None \<Rightarrow> 0);
          final_prob = py_max (1 / 10) (py_min (9 / 10) (base_prob + scenario_mod))
      in final_prob)"

subsection \<open>validate_team_formation\<close>

text \<open>
  \<open>team_players\<close> is a dictionary from player ids to positions; the function only
  iterates over its items, so it is modelled as the list of its items in iteration order.
  \<open>required_positions\<close> is a dictionary literal, iterated in the order it is written.
\<close>

definition required_positions :: "(string \<times> int) list" where
  "required_positions = [(''GK'', 1), (''DEF'', 1), (''MF'', 1), (''ST'', 1)]"

definition dict_get :: "('k \<rightharpoonup> 'v) \<Rightarrow> 'k \<Rightarrow> 'v \<Rightarrow> 'v" where
  "dict_get d k dflt = (case d k of Some v \<Rightarrow> v | None \<Rightarrow> dflt)"

fun count_positions :: "(string \<rightharpoonup> int) \<Rightarrow> ('p \<times> string) list \<Rightarrow> (string \<rightharpoonup> int)" where
  "count_positions position_counts [] = position_counts"
| "count_positions position_counts ((player_id, position) # rest) =
     count_positions
       (position_counts(upper position \<mapsto> dict_get position_counts (upper position) 0 + 1))
       rest"

fun check_required :: "(string \<rightharpoonup> int) \<Rightarrow> (string \<times> int) list \<Rightarrow> bool \<times> string" where
  "check_required position_counts [] = (True, ''Formation is valid'')"
| "check_required position_counts ((position, required_count) # rest) =
     (if dict_get position_counts position 0 < required_count
      then (False, ''Team needs at least '' @ str_int required_count @ '' '' @ position)
      else check_required position_counts rest)"

definition validate_team_formation :: "('p \<times> string) list \<Rightarrow> bool \<times> string" where
  "validate_team_formation team_players =
     check_required (count_positions Map.empty team_players) required_positions"


section \<open>game_logic.py: class MatchState\<close>

record MatchState =
  match_id :: string
  score :: "string \<rightharpoonup> int"
  possession :: string
  current_scenario :: string
  turn_count :: int
  match_time :: int
  status :: string
  stats :: "string \<rightharpoonup> (string \<rightharpoonup> int)"

definition zero_stats :: "string \<rightharpoonup> int" where
  "zero_stats = [''shots'' \<mapsto> 0, ''saves'' \<mapsto> 0, ''fouls'' \<mapsto> 0, ''corners'' \<mapsto> 0]"

definition MatchState_init :: "string \<Rightarrow> MatchState" where
  "MatchState_init mid =
     \<lparr>match_id = mid,
      score = [''A'' \<mapsto> 0, ''B'' \<mapsto> 0],
      possession = ''A'',
      current_scenario = ''kickoff'',
      turn_count = 0,
      match_time = 0,
      status = ''active'',
      stats = [''A'' \<mapsto> zero_stats, ''B'' \<mapsto> zero_stats]\<rparr>"

definition update_score :: "MatchState \<Rightarrow> string \<Rightarrow> int \<Rightarrow> MatchState" where
  "update_score s team points =
     (case score s team of
        Some v \<Rightarrow> s\<lparr>score := (score s)(team \<mapsto> v + points)\<rparr>
      | None \<Rightarrow> s)"

definition switch_possession :: "MatchState \<Rightarrow> MatchState" where
  "switch_possession s = s\<lparr>possession := (if possession s = ''A'' then ''B'' else ''A'')\<rparr>"

definition update_stats :: "MatchState \<Rightarrow> string \<Rightarrow> string \<Rightarrow> int \<Rightarrow> MatchState" where
  "update_stats s team stat_type val =
     (case stats s team of
        None \<Rightarrow> s
      | Some team_stats \<Rightarrow>
          (case team_stats stat_type of
             None \<Rightarrow> s
           | Some v \<Rightarrow> s\<lparr>stats := (stats s)(team \<mapsto> team_stats(stat_type \<mapsto> v + val))\<rparr>))"

record match_summary =
  summary_match_id :: string
  summary_score :: "string \<rightharpoonup> int"
  summary_possession :: string
  summary_scenario :: string
  summary_time :: int
  summary_status :: string
  summary_stats :: "string \<rightharpoonup> (string \<rightharpoonup> int)"
  summary_turn_count :: int

definition get_match_summary :: "MatchState \<Rightarrow> match_summary" where
  "get_match_summary s =
     \<lparr>summary_match_id = match_id s,
      summary_score = score s,
      summary_possession = possession s,
      summary_scenario = current_scenario s,
      summary_time = match_time s,
      summary_status = status s,
      summary_stats = stats s,
      summary_turn_count = turn_count s\<rparr>"

text \<open>
  A call of one of the four methods on a match state. \<open>get_match_summary\<close> builds its
  result from the fields and assigns to none of them.
\<close>

datatype match_call =
    Update_score string int
  | Switch_possession
  | Update_stats string string int
  | Get_match_summary

fun call_method :: "MatchState \<Rightarrow> match_call \<Rightarrow> MatchState" where
  "call_method s (Update_score team points) = update_score s team points"
| "call_method s Switch_possession = switch_possession s"
| "call_method s (Update_stats team stat_type val) = update_stats s team stat_type val"
| "call_method s Get_match_summary = s"

fun call_methods :: "MatchState \<Rightarrow> match_call list \<Rightarrow> MatchState" where
  "call_methods s [] = s"
| "call_methods s (c # cs) = call_methods (call_method s c) cs"


section \<open>database.py: class DatabaseManager\<close>

text \<open>
  Values that are passed to the database layer as keyword arguments and query parameters.
  \<open>has_iter v\<close> is \<open>hasattr(v, '__iter__')\<close> and \<open>is_str v\<close> is
  \<open>isinstance(v, str)\<close>.
\<close>

datatype pyval =
    PNone
  | PBool bool
  | PInt int
  | PFloat rat
  | PStr string
  | PDatetime nat
  | PList "pyval list"

fun has_iter :: "pyval \<Rightarrow> bool" where
  "has_iter (PStr s) = True"
| "has_iter (PList vs) = True"
| "has_iter v = False"

fun is_str :: "pyval \<Rightarrow> bool" where
  "is_str (PStr s) = True"
| "is_str v = False"

datatype py_exception = AttributeError | PostgresError

type_synonym db_row = "(string \<times> pyval) list"

text \<open>
  The PostgreSQL server and the asyncpg driver are not part of the repository. The pool is
  modelled by the state of the database behind it and by the answers of the server to
  \<open>fetchrow\<close>, \<open>fetch\<close> and \<open>execute\<close>; an answer \<open>Inl e\<close> is a raised exception
  (a failed acquisition of a connection included). \<open>executed\<close> records the statements
  that were sent through \<open>execute\<close>, oldest first.
\<close>

record 'db asyncpg_pool =
  db_state :: 'db
  executed :: "(string \<times> pyval list) list"
  pg_fetchrow :: "'db \<Rightarrow> string \<Rightarrow> pyval list \<Rightarrow> py_exception + db_row option"
  pg_fetch :: "'db \<Rightarrow> string \<Rightarrow> pyval list \<Rightarrow> py_exception + db_row list"
  pg_execute :: "'db \<Rightarrow> string \<Rightarrow> pyval list \<Rightarrow> (py_exception + string) \<times> 'db"

record 'db DatabaseManager =
  pool :: "'db asyncpg_pool option"
  connection_url :: "string option"

text \<open>
  \<open>async with self.pool.acquire() as conn: ...\<close> with no guard in front: on a manager
  whose pool is still \<open>None\<close> the attribute access raises \<open>AttributeError\<close>.
  The texts of the queries are written with their white space collapsed.
\<close>

definition pool_fetchrow ::
  "'db DatabaseManager \<Rightarrow> string \<Rightarrow> pyval list \<Rightarrow> py_exception + db_row option" where
  "pool_fetchrow dm query args =
     (case pool dm of
        None \<Rightarrow> Inl AttributeError
      | Some p \<Rightarrow> pg_fetchrow p (db_state p) query args)"

definition pool_fetch ::
  "'db DatabaseManager \<Rightarrow> string \<Rightarrow> pyval list \<Rightarrow> py_exception + db_row list" where
  "pool_fetch dm query args =
     (case pool dm of
        None \<Rightarrow> Inl AttributeError
      | Some p \<Rightarrow> pg_fetch p (db_state p) query args)"

definition pool_execute ::
  "'db DatabaseManager \<Rightarrow> string \<Rightarrow> pyval list
     \<Rightarrow> (py_exception + string) \<times> 'db DatabaseManager" where
  "pool_execute dm query args =
     (case pool dm of
        None \<Rightarrow> (Inl AttributeError, dm)
      | Some p \<Rightarrow>
          (case pg_execute p (db_state p) query args of
             (answer, db') \<Rightarrow>
               (answer,
                dm\<lparr>pool := Some (p\<lparr>db_state := db', executed := executed p @ [(query, args)]\<rparr>)\<rparr>)))"

text \<open>
  \<open>dict(result) if result else None\<close>: an asyncpg record is false when it has no
  columns, and so is \<open>None\<close>.
\<close>

definition dict_if_result :: "db_row option \<Rightarrow> db_row option" where
  "dict_if_result res =
     (case res of None \<Rightarrow> None | Some row \<Rightarrow> if row = [] then None else Some row)"

subsection \<open>Read operations\<close>

definition get_player :: "'db DatabaseManager \<Rightarrow> int \<Rightarrow> py_exception + db_row option" where
  "get_player dm user_id =
     (if pool dm = None then Inr None
      else case pool_fetchrow dm ''SELECT * FROM players WHERE user_id = $1'' [PInt user_id] of
             Inr res \<Rightarrow> Inr (dict_if_result res)
           | Inl e \<Rightarrow> Inr None)"

definition get_match :: "'db DatabaseManager \<Rightarrow> string \<Rightarrow> py_exception + db_row option" where
  "get_match dm mid =
     (if pool dm = None then Inr None
      else case pool_fetchrow dm ''SELECT * FROM matches WHERE match_id = $1'' [PStr mid] of
             Inr res \<Rightarrow> Inr (dict_if_result res)
           | Inl e \<Rightarrow> Inr None)"

definition get_active_matches :: "'db DatabaseManager \<Rightarrow> py_exception + db_row list" where
  "get_active_matches dm =
     (case pool_fetch dm
        ''SELECT * FROM matches WHERE status IN ('waiting', 'ongoing') ORDER BY created_at DESC''
        [] of
        Inr results \<Rightarrow> Inr results
      | Inl e \<Rightarrow> Inl e)"

definition get_user_active_match ::
  "'db DatabaseManager \<Rightarrow> int \<Rightarrow> py_exception + db_row option" where
  "get_user_active_match dm user_id =
     (case pool_fetchrow dm
        ''SELECT * FROM matches WHERE host_id = $1 AND status IN ('waiting', 'ongoing') LIMIT 1''
        [PInt user_id] of
        Inr res \<Rightarrow> Inr (dict_if_result res)
      | Inl e \<Rightarrow> Inl e)"

definition get_match_players :: "'db DatabaseManager \<Rightarrow> string \<Rightarrow> py_exception + db_row list" where
  "get_match_players dm mid =
     (case pool_fetch dm
        (''SELECT mp.*, p.username, p.display_name FROM match_players mp ''
         @ ''JOIN players p ON mp.user_id = p.user_id WHERE mp.match_id = $1 ''
         @ ''ORDER BY mp.team, mp.joined_at'')
        [PStr mid] of
        Inr results \<Rightarrow> Inr results
      | Inl e \<Rightarrow> Inl e)"

subsection \<open>Field-set updates\<close>

fun join_comma :: "string list \<Rightarrow> string" where
  "join_comma [] = []"
| "join_comma [s] = s"
| "join_comma (s # t # rest) = s @ '', '' @ join_comma (t # rest)"

text \<open>
  The loop over \<open>stats.items()\<close>; its state is \<open>set_clauses\<close>, \<open>values\<close> and
  \<open>param_count\<close>.
\<close>

fun stats_clauses ::
  "(string \<times> pyval) list \<Rightarrow> string list \<times> pyval list \<times> nat
     \<Rightarrow> string list \<times> pyval list \<times> nat" where
  "stats_clauses [] acc = acc"
| "stats_clauses ((key, val) # rest) (set_clauses, vals, param_count) =
     (if has_iter val \<and> \<not> is_str val
      then stats_clauses rest (set_clauses, vals, param_count)
      else stats_clauses rest
             (set_clauses @ [key @ '' = $'' @ str_nat param_count], vals @ [val],
              param_count + 1))"

text \<open>\<open>now\<close> is the value of \<open>datetime.now()\<close> at the call.\<close>

definition update_player_stats ::
  "'db DatabaseManager \<Rightarrow> int \<Rightarrow> (string \<times> pyval) list \<Rightarrow> nat
     \<Rightarrow> (py_exception + bool) \<times> 'db DatabaseManager" where
  "update_player_stats dm user_id stats_kw now =
     (if stats_kw = [] then (Inr False, dm)
      else case stats_clauses stats_kw ([], [], 1) of
        (set_clauses, vals, param_count) \<Rightarrow>
          if set_clauses = [] then (Inr False, dm)
          else
            let set_clauses' = set_clauses @ [''updated_at = $'' @ str_nat param_count];
                vals' = vals @ [PDatetime now] @ [PInt user_id];
                query = ''UPDATE players SET '' @ join_comma set_clauses'
                        @ '' WHERE user_id = $'' @ str_nat (param_count + 1)
            in (case pool_execute dm query vals' of
                  (Inl e, dm') \<Rightarrow> (Inl e, dm')
                | (Inr res, dm') \<Rightarrow> (Inr (res \<noteq> ''UPDATE 0''), dm')))"

definition allowed_fields :: "string list" where
  "allowed_fields =
     [''team_a_score'', ''team_b_score'', ''score_a'', ''score_b'',
      ''shots_a'', ''shots_b'', ''saves_a'', ''saves_b'']"

fun score_clauses ::
  "(string \<times> pyval) list \<Rightarrow> string list \<times> pyval list \<times> nat
     \<Rightarrow> string list \<times> pyval list \<times> nat" where
  "score_clauses [] acc = acc"
| "score_clauses ((key, val) # rest) (set_clauses, vals, param_count) =
     (if key \<in> set allowed_fields
      then score_clauses rest
             (set_clauses @ [key @ '' = $'' @ str_nat param_count], vals @ [val],
              param_count + 1)
      else score_clauses rest (set_clauses, vals, param_count))"

definition update_match_score ::
  "'db DatabaseManager \<Rightarrow> string \<Rightarrow> (string \<times> pyval) list
     \<Rightarrow> (py_exception + bool) \<times> 'db DatabaseManager" where
  "update_match_score dm mid score_data =
     (if score_data = [] then (Inr False, dm)
      else case score_clauses score_data ([], [], 1) of
        (set_clauses, vals, param_count) \<Rightarrow>
          if set_clauses = [] then (Inr False, dm)
          else
            let vals' = vals @ [PStr mid];
                query = ''UPDATE matches SET '' @ join_comma set_clauses
                        @ '' WHERE match_id = $'' @ str_nat param_count
            in (case pool_execute dm query vals' of
                  (Inl e, dm') \<Rightarrow> (Inl e, dm')
                | (Inr res, dm') \<Rightarrow> (Inr (res \<noteq> ''UPDATE 0''), dm')))"

text \<open>
  A server for running the operations on concrete inputs: it holds a counter of the
  statements it has executed, finds no rows, and reports one updated row for every statement.
\<close>

definition counting_pool :: "nat asyncpg_pool" where
  "counting_pool =
     \<lparr>db_state = 0,
      executed = [],
      pg_fetchrow = (\<lambda>db query args. Inr None),
      pg_fetch = (\<lambda>db query args. Inr []),
      pg_execute = (\<lambda>db query args. (Inr ''UPDATE 1'', Suc db))\<rparr>"

definition counting_manager :: "nat DatabaseManager" where
  "counting_manager = \<lparr>pool = Some counting_pool, connection_url = Some ''postgresql://db''\<rparr>"

text \<open>A manager as \<open>DatabaseManager()\<close> constructs it: \<open>initialize\<close> has not run.\<close>

definition fresh_manager :: "nat DatabaseManager" where
  "fresh_manager = \<lparr>pool = None, connection_url = Some ''postgresql://db''\<rparr>"

text \<open>A manager whose pool is initialized and whose server fails every query.\<close>

definition failing_manager :: "nat DatabaseManager" where
  "failing_manager =
     \<lparr>pool = Some \<lparr>db_state = 0,
                   executed = [],
                   pg_fetchrow = (\<lambda>db query args. Inl PostgresError),
                   pg_fetch = (\<lambda>db query args. Inl PostgresError),
                   pg_execute = (\<lambda>db query args. (Inl PostgresError, db))\<rparr>,
      connection_url = Some ''postgresql://db''\<rparr>"


section \<open>Properties of the action resolver\<close>

lemmas case_eval = upper_def lower_def upper_char_def lower_char_def

lemma ranges_default: "map_of ranges (''ANY'', ''ANY'', ''default'') = Some (1, 3)"
  by (simp add: ranges_def)

text \<open>
  C6. A triple that is absent from the range table, after the roles are upper-cased and
  the scenario is lower-cased, gets the default range (1, 3) from \<open>get_action_range\<close>.
\<close>

theorem get_action_range_default:
  assumes "map_of ranges (upper attacker_role, upper defender_role, lower scenario) = None"
  shows "get_action_range attacker_role defender_role scenario = (1, 3)"
  using assms by (simp add: get_action_range_def ranges_default)

theorem get_action_range_default_witness:
  "map_of ranges (upper ''gk'', upper ''st'', lower ''Penalty'') = None
   \<and> get_action_range ''gk'' ''st'' ''Penalty'' = (1, 3)"
proof -
  have h: "map_of ranges (upper ''gk'', upper ''st'', lower ''Penalty'') = None"
    by (simp add: ranges_def case_eval)
  from h get_action_range_default [OF h] show ?thesis by simp
qed

text \<open>
  C5. When the attacker's or the defender's integer is outside the resolved inclusive
  range, \<open>evaluate_action\<close> returns the outcome \<open>invalid_action\<close> with success false,
  and the description names the attacker's role when the attacker's integer is out of
  range and the defender's role otherwise.
\<close>

theorem evaluate_action_out_of_range:
  assumes "\<not> in_range (get_action_range attacker_role defender_role scenario) a
           \<or> \<not> in_range (get_action_range attacker_role defender_role scenario) d"
  shows "result (evaluate_action a d attacker_role defender_role scenario) = ''invalid_action''
       \<and> success (evaluate_action a d attacker_role defender_role scenario) = False
       \<and> description (evaluate_action a d attacker_role defender_role scenario) =
           ''Invalid action for ''
           @ (if \<not> in_range (get_action_range attacker_role defender_role scenario) a
              then attacker_role else defender_role)
           @ ''. Must be between ''
           @ str_int (fst (get_action_range attacker_role defender_role scenario)) @ ''-''
           @ str_int (snd (get_action_range attacker_role defender_role scenario))"
  using assms by (auto simp add: evaluate_action_def Let_def)

theorem evaluate_action_out_of_range_witness:
  "in_range (get_action_range ''ST'' ''MF'' ''quick_pass'') 2
   \<and> \<not> in_range (get_action_range ''ST'' ''MF'' ''quick_pass'') 3
   \<and> result (evaluate_action 2 3 ''ST'' ''MF'' ''quick_pass'') = ''invalid_action''
   \<and> success (evaluate_action 2 3 ''ST'' ''MF'' ''quick_pass'') = False
   \<and> description (evaluate_action 2 3 ''ST'' ''MF'' ''quick_pass'') =
        ''Invalid action for MF. Must be between 1-2''"
proof -
  have r: "get_action_range ''ST'' ''MF'' ''quick_pass'' = (1, 2)"
    by (simp add: get_action_range_def ranges_def case_eval)
  have h: "\<not> in_range (get_action_range ''ST'' ''MF'' ''quick_pass'') 2
           \<or> \<not> in_range (get_action_range ''ST'' ''MF'' ''quick_pass'') 3"
    by (simp add: r in_range_def)
  from evaluate_action_out_of_range [OF h] show ?thesis
    by (simp add: r in_range_def str_int_def str_nat.simps digit_char_def)
qed

text \<open>
  C3. For two equal integers inside the resolved range, \<open>evaluate_action\<close> returns
  \<open>save\<close> when the defender role is GK in any letter case, \<open>foul\<close> when the attacker
  role is ST and the defender role is DEF, and \<open>interception\<close> for every other pair of
  roles.
\<close>

theorem evaluate_action_equal:
  assumes "in_range (get_action_range attacker_role defender_role scenario) a"
  shows "result (evaluate_action a a attacker_role defender_role scenario) =
           (if upper defender_role = ''GK'' then ''save''
            else if upper attacker_role = ''ST'' \<and> upper defender_role = ''DEF'' then ''foul''
            else ''interception'')"
  using assms by (simp add: evaluate_action_def Let_def)

theorem evaluate_action_equal_witness:
  "in_range (get_action_range ''st'' ''Def'' ''corner_kick'') 5
   \<and> result (evaluate_action 5 5 ''st'' ''Def'' ''corner_kick'') = ''foul''"
proof -
  have h: "in_range (get_action_range ''st'' ''Def'' ''corner_kick'') 5"
    by (simp add: in_range_def get_action_range_def ranges_def case_eval)
  from h evaluate_action_equal [OF h] show ?thesis
    by (simp add: case_eval)
qed

text \<open>
  C4. For two integers inside the resolved range with the defender's strictly greater
  than the attacker's, \<open>evaluate_action\<close> returns \<open>save\<close> when the defender role is GK
  in any letter case and \<open>blocked\<close> for any other defender role.
\<close>

theorem evaluate_action_defender_greater:
  assumes "in_range (get_action_range attacker_role defender_role scenario) a"
    and "in_range (get_action_range attacker_role defender_role scenario) d"
    and "a < d"
  shows "result (evaluate_action a d attacker_role defender_role scenario) =
           (if upper defender_role = ''GK'' then ''save'' else ''blocked'')"
  using assms by (simp add: evaluate_action_def Let_def)

theorem evaluate_action_defender_greater_witness:
  "in_range (get_action_range ''mf'' ''gk'' ''Long_Shot'') 2
   \<and> in_range (get_action_range ''mf'' ''gk'' ''Long_Shot'') 5
   \<and> (2::int) < 5
   \<and> result (evaluate_action 2 5 ''mf'' ''gk'' ''Long_Shot'') = ''save''"
proof -
  have r: "get_action_range ''mf'' ''gk'' ''Long_Shot'' = (2, 5)"
    by (simp add: get_action_range_def ranges_def case_eval)
  have h1: "in_range (get_action_range ''mf'' ''gk'' ''Long_Shot'') 2"
    and h2: "in_range (get_action_range ''mf'' ''gk'' ''Long_Shot'') 5"
    by (simp_all add: r in_range_def)
  have h3: "(2::int) < 5" by simp
  from h1 h2 evaluate_action_defender_greater [OF h1 h2 h3] show ?thesis
    by (simp add: case_eval)
qed

text \<open>
  What \<open>evaluate_action\<close> does when the attacker's integer is the greater one: the
  defender role is compared after upper-casing, the scenario is compared as it was passed.
\<close>

lemma evaluate_action_attacker_greater:
  assumes "in_range (get_action_range attacker_role defender_role scenario) a"
    and "in_range (get_action_range attacker_role defender_role scenario) d"
    and "d < a"
  shows "result (evaluate_action a d attacker_role defender_role scenario) =
           (if scenario = ''shooting'' \<and> upper defender_role = ''GK'' then ''goal''
            else ''success'')"
  using assms by (simp add: evaluate_action_def Let_def)

text \<open>
  C1. For two integers inside the resolved range with the attacker's strictly greater,
  the claim is that \<open>evaluate_action\<close> returns \<open>goal\<close> exactly when the scenario is
  shooting and the defender role is GK, names being compared without regard to letter
  case. The range lookup lower-cases the scenario, the comparison with \<open>shooting\<close> does
  not: for the scenario \<open>Shooting\<close> the shooting range (1, 6) is resolved, 5 and 2 are
  inside it, and the outcome is \<open>success\<close>, not \<open>goal\<close>.
\<close>

theorem evaluate_action_mixed_case_shooting:
  "get_action_range ''ST'' ''GK'' ''Shooting'' = (1, 6)
   \<and> in_range (get_action_range ''ST'' ''GK'' ''Shooting'') 5
   \<and> in_range (get_action_range ''ST'' ''GK'' ''Shooting'') 2
   \<and> lower ''Shooting'' = ''shooting''
   \<and> upper ''GK'' = ''GK''
   \<and> result (evaluate_action 5 2 ''ST'' ''GK'' ''Shooting'') = ''success''
   \<and> result (evaluate_action 5 2 ''ST'' ''GK'' ''shooting'') = ''goal''"
  by (simp add: evaluate_action_def in_range_def get_action_range_def ranges_def case_eval)

text \<open>
  C8. For every attacker role, defender role and scenario, names absent from the two
  tables included, \<open>calculate_success_probability\<close> returns a value in the closed
  interval from 0.1 to 0.9.
\<close>

theorem calculate_success_probability_bounds:
  "1 / 10 \<le> calculate_success_probability attacker_role defender_role scenario
   \<and> calculate_success_probability attacker_role defender_role scenario \<le> 9 / 10"
  by (simp add: calculate_success_probability_def py_max_def py_min_def Let_def)


section \<open>Properties of the formation check\<close>

lemma count_positions_absent:
  assumes "\<forall>(player_id, position) \<in> set team_players. upper position \<noteq> k"
  shows "count_positions position_counts team_players k = position_counts k"
  using assms
proof (induction team_players arbitrary: position_counts)
  case Nil
  then show ?case by simp
next
  case (Cons item rest)
  obtain player_id position where item: "item = (player_id, position)"
    by (cases item)
  from Cons.prems item have "upper position \<noteq> k"
    and rest: "\<forall>(player_id, position) \<in> set rest. upper position \<noteq> k"
    by auto
  then show ?case
    using Cons.IH [OF rest] item by simp
qed

text \<open>
  The loop over the required positions returns at the first position, in the order of
  the table, whose count is below the required count.
\<close>

lemma check_required_first_missing:
  "check_required position_counts required =
     (case find (\<lambda>(position, required_count).
                   dict_get position_counts position 0 < required_count) required of
        None \<Rightarrow> (True, ''Formation is valid'')
      | Some (position, required_count) \<Rightarrow>
          (False, ''Team needs at least '' @ str_int required_count @ '' '' @ position))"
  by (induction required) auto

text \<open>
  C7. For every roster without a goalkeeper, positions being compared after
  upper-casing, \<open>validate_team_formation\<close> returns false with the message
  \<open>Team needs at least 1 GK\<close>, whatever other roles are present; GK is the first
  missing role in the iteration order of the table of required positions.
\<close>

theorem validate_team_formation_no_goalkeeper:
  assumes "\<forall>(player_id, position) \<in> set team_players. upper position \<noteq> ''GK''"
  shows "validate_team_formation team_players = (False, ''Team needs at least 1 GK'')
       \<and> find (\<lambda>(position, required_count).
                 dict_get (count_positions Map.empty team_players) position 0 < required_count)
           required_positions = Some (''GK'', 1)"
proof -
  have "count_positions Map.empty team_players ''GK'' = None"
    using count_positions_absent [OF assms, of Map.empty] by simp
  then show ?thesis
    by (simp add: validate_team_formation_def required_positions_def dict_get_def
          str_int_def str_nat.simps digit_char_def)
qed

theorem validate_team_formation_no_goalkeeper_witness:
  "upper ''st'' \<noteq> ''GK'' \<and> upper ''Mf'' \<noteq> ''GK'' \<and> upper ''DEF'' \<noteq> ''GK''
   \<and> validate_team_formation [(1::nat, ''st''), (2, ''Mf''), (3, ''DEF'')] =
       (False, ''Team needs at least 1 GK'')"
proof -
  have h: "\<forall>(player_id, position) \<in> set [(1::nat, ''st''), (2, ''Mf''), (3, ''DEF'')].
             upper position \<noteq> ''GK''"
    by (simp add: case_eval)
  from h validate_team_formation_no_goalkeeper [OF h] show ?thesis by simp
qed


section \<open>Properties of the match state\<close>

lemma call_method_possession:
  "possession s = ''A'' \<or> possession s = ''B'' \<Longrightarrow>
   possession (call_method s c) = ''A'' \<or> possession (call_method s c) = ''B''"
  by (cases c)
     (auto simp add: update_score_def switch_possession_def update_stats_def
           split: option.splits)

lemma call_methods_possession:
  "possession s = ''A'' \<or> possession s = ''B'' \<Longrightarrow>
   possession (call_methods s cs) = ''A'' \<or> possession (call_methods s cs) = ''B''"
proof (induction cs arbitrary: s)
  case Nil
  then show ?case by simp
next
  case (Cons c cs)
  from Cons.prems
  have "possession (call_method s c) = ''A'' \<or> possession (call_method s c) = ''B''"
    by (rule call_method_possession)
  then show ?case using Cons.IH by simp
qed

text \<open>
  C10. After any finite sequence of calls of \<open>update_score\<close>, \<open>switch_possession\<close>,
  \<open>update_stats\<close> and \<open>get_match_summary\<close> on a freshly constructed match state,
  the possession field is \<open>A\<close> or \<open>B\<close>; \<open>switch_possession\<close> maps \<open>A\<close> to \<open>B\<close>
  and \<open>B\<close> to \<open>A\<close>.
\<close>

theorem possession_is_A_or_B:
  "(possession (call_methods (MatchState_init mid) cs) = ''A''
      \<or> possession (call_methods (MatchState_init mid) cs) = ''B'')
   \<and> (possession s = ''A'' \<longrightarrow> possession (switch_possession s) = ''B'')
   \<and> (possession s = ''B'' \<longrightarrow> possession (switch_possession s) = ''A'')"
proof -
  have "possession (MatchState_init mid) = ''A''"
    by (simp add: MatchState_init_def)
  then have "possession (call_methods (MatchState_init mid) cs) = ''A''
      \<or> possession (call_methods (MatchState_init mid) cs) = ''B''"
    by (intro call_methods_possession) simp
  then show ?thesis by (simp add: switch_possession_def)
qed

theorem possession_is_A_or_B_witness:
  "possession (MatchState_init ''m1'') = ''A''
   \<and> possession (switch_possession (MatchState_init ''m1'')) = ''B''
   \<and> possession (switch_possession (switch_possession (MatchState_init ''m1''))) = ''A''
   \<and> possession (call_methods (MatchState_init ''m1'')
        [Update_score ''C'' 1, Switch_possession, Update_stats ''A'' ''shots'' 2,
         Get_match_summary]) = ''B''"
proof -
  have h1: "possession (MatchState_init ''m1'') = ''A''"
    by (simp add: MatchState_init_def)
  from possession_is_A_or_B [of "''m1''" "[]" "MatchState_init ''m1''"] h1
  have h2: "possession (switch_possession (MatchState_init ''m1'')) = ''B''"
    by simp
  from possession_is_A_or_B [of "''m1''" "[]" "switch_possession (MatchState_init ''m1'')"] h2
  have h3: "possession (switch_possession (switch_possession (MatchState_init ''m1''))) = ''A''"
    by simp
  have h4: "possession (call_methods (MatchState_init ''m1'')
        [Update_score ''C'' 1, Switch_possession, Update_stats ''A'' ''shots'' 2,
         Get_match_summary]) = ''B''"
    by (simp add: MatchState_init_def update_score_def switch_possession_def
          update_stats_def zero_stats_def)
  from h1 h2 h3 h4 show ?thesis by simp
qed


section \<open>Properties of the persistence layer\<close>

lemma get_player_never_raises: "\<exists>r. get_player dm user_id = Inr r"
  by (simp add: get_player_def split: sum.splits)

lemma get_match_never_raises: "\<exists>r. get_match dm mid = Inr r"
  by (simp add: get_match_def split: sum.splits)

text \<open>
  C2. The claim is that each of the five read operations returns an empty or absent
  result, and never raises, when the pool is not initialized or the query fails.
  \<open>get_player\<close> and \<open>get_match\<close> test the pool and catch the exceptions of the query
  (the two lemmas above). \<open>get_active_matches\<close>, \<open>get_user_active_match\<close> and
  \<open>get_match_players\<close> do neither: on a manager that was not initialized they raise
  \<open>AttributeError\<close>, and the exception of a failed query leaves them as it is.
\<close>

theorem unguarded_reads_raise:
  "get_active_matches fresh_manager = Inl AttributeError
   \<and> get_user_active_match fresh_manager 123456789 = Inl AttributeError
   \<and> get_match_players fresh_manager ''test_match_123'' = Inl AttributeError
   \<and> get_active_matches failing_manager = Inl PostgresError
   \<and> get_user_active_match failing_manager 123456789 = Inl PostgresError
   \<and> get_match_players failing_manager ''test_match_123'' = Inl PostgresError
   \<and> get_player fresh_manager 123456789 = Inr None
   \<and> get_match fresh_manager ''test_match_123'' = Inr None
   \<and> get_player failing_manager 123456789 = Inr None
   \<and> get_match failing_manager ''test_match_123'' = Inr None"
  by (simp add: get_active_matches_def get_user_active_match_def get_match_players_def
        get_player_def get_match_def pool_fetch_def pool_fetchrow_def
        fresh_manager_def failing_manager_def)

lemma stats_clauses_empty:
  assumes "filter (\<lambda>(key, val). \<not> (has_iter val \<and> \<not> is_str val)) stats_kw = []"
  shows "stats_clauses stats_kw acc = acc"
  using assms
proof (induction stats_kw arbitrary: acc)
  case Nil
  then show ?case by simp
next
  case (Cons item rest)
  obtain key val where item: "item = (key, val)"
    by (cases item)
  obtain set_clauses vals param_count where acc: "acc = (set_clauses, vals, param_count)"
    by (cases acc)
  from Cons.prems item have skip: "has_iter val \<and> \<not> is_str val"
    and rest: "filter (\<lambda>(key, val). \<not> (has_iter val \<and> \<not> is_str val)) rest = []"
    by (auto split: if_splits)
  show ?case
    using skip Cons.IH [OF rest] by (simp add: item acc)
qed

lemma score_clauses_empty:
  assumes "filter (\<lambda>(key, val). key \<in> set allowed_fields) score_data = []"
  shows "score_clauses score_data acc = acc"
  using assms
proof (induction score_data arbitrary: acc)
  case Nil
  then show ?case by simp
next
  case (Cons item rest)
  obtain key val where item: "item = (key, val)"
    by (cases item)
  obtain set_clauses vals param_count where acc: "acc = (set_clauses, vals, param_count)"
    by (cases acc)
  from Cons.prems item have skip: "key \<notin> set allowed_fields"
    and rest: "filter (\<lambda>(key, val). key \<in> set allowed_fields) rest = []"
    by (auto split: if_splits)
  show ?case
    using skip Cons.IH [OF rest] by (simp add: item acc)
qed

text \<open>
  C9. A call of \<open>update_player_stats\<close> whose keyword arguments are empty, or are all
  iterables other than strings, and a call of \<open>update_match_score\<close> whose keyword
  arguments are empty, or are all outside the allow-list, return false and leave the
  manager as it was: no statement is executed and the state of the database is the same.
\<close>

theorem update_without_fields:
  "(filter (\<lambda>(key, val). \<not> (has_iter val \<and> \<not> is_str val)) stats_kw = []
      \<longrightarrow> update_player_stats dm user_id stats_kw now = (Inr False, dm))
   \<and> (filter (\<lambda>(key, val). key \<in> set allowed_fields) score_data = []
      \<longrightarrow> update_match_score dm mid score_data = (Inr False, dm))"
  by (simp add: update_player_stats_def update_match_score_def
        stats_clauses_empty score_clauses_empty)

theorem update_without_fields_witness:
  "filter (\<lambda>(key, val). \<not> (has_iter val \<and> \<not> is_str val))
     [(''goals'', PList [PInt 1, PInt 2])] = []
   \<and> update_player_stats counting_manager 7 [(''goals'', PList [PInt 1, PInt 2])] 0
        = (Inr False, counting_manager)
   \<and> filter (\<lambda>(key, val). key \<in> set allowed_fields) [(''status'', PStr ''ended'')] = []
   \<and> update_match_score counting_manager ''m1'' [(''status'', PStr ''ended'')]
        = (Inr False, counting_manager)"
proof -
  have h1: "filter (\<lambda>(key, val). \<not> (has_iter val \<and> \<not> is_str val))
              [(''goals'', PList [PInt 1, PInt 2])] = []"
    by simp
  have h2: "filter (\<lambda>(key, val). key \<in> set allowed_fields) [(''status'', PStr ''ended'')] = []"
    by (simp add: allowed_fields_def)
  from h1 h2
    update_without_fields [of "[(''goals'', PList [PInt 1, PInt 2])]" counting_manager 7 0
      "[(''status'', PStr ''ended'')]" "''m1''"]
  show ?thesis by simp
qed

end
